theory Spec2Isabelle
  imports Main "HOL-Library.Sublist"
begin

section \<open>Errors\<close>

text \<open>
  The Python exceptions that \<^verbatim>\<open>serpent.py\<close> raises itself or lets propagate.
  \<^item> \<open>Exception msg\<close>: \<^verbatim>\<open>raise Exception(msg)\<close> of the file itself.
  \<^item> \<open>ValueError msg\<close>: \<^verbatim>\<open>raise ValueError(msg)\<close> of the file itself.
  \<^item> \<open>InvalidLiteral s\<close>: the \<^verbatim>\<open>ValueError\<close> of the builtin \<^verbatim>\<open>int(s)\<close>,
    whose message is \<^verbatim>\<open>invalid literal for int() with base 10:\<close> followed by the
    \<^verbatim>\<open>repr\<close> of the string \<open>s\<close>.
  \<^item> \<open>TypeError msg\<close>: the builtin \<^verbatim>\<open>int(None)\<close> and a call with the wrong number
    of positional arguments.
  \<^item> \<open>KeyError k\<close>: a dictionary subscript with a missing key.
  \<^item> \<open>FileExistsError p\<close>, \<open>FileNotFoundError p\<close>, \<open>IsADirectoryError p\<close>,
    \<open>ShutilError p\<close>: the errors of the file operations, with the path.
  \<^item> \<open>Raised msg\<close>: whatever an external collaborator (a game plugin, a recogniser,
    the float conversion) raises.
\<close>

datatype error =
    Exception string
  | ValueError string
  | InvalidLiteral string
  | TypeError string
  | KeyError string
  | FileExistsError string
  | FileNotFoundError string
  | IsADirectoryError string
  | ShutilError string
  | Raised string

section \<open>Strings\<close>

text \<open>
  Python's \<^verbatim>\<open>str.replace(old, new)\<close>: every non-overlapping occurrence of \<open>old\<close>,
  found from the left, is replaced by \<open>new\<close>; the scan goes on after the occurrence.
  With an empty \<open>old\<close>, \<open>new\<close> is put before every character and at the end.
  Strings are lists of 8-bit characters.
\<close>

function replace :: "string \<Rightarrow> string \<Rightarrow> string \<Rightarrow> string" where
  "replace old new [] = (if old = [] then new else [])"
| "replace old new (c # cs) =
     (if old = [] then new @ c # replace old new cs
      else if prefix old (c # cs) then new @ replace old new (drop (length old) (c # cs))
      else c # replace old new cs)"
  by pat_completeness auto
termination
  by (relation "measure (\<lambda>(old, new, s). length s)") (auto simp: neq_Nil_conv)

text \<open>The number of line breaks of a text, and a text made of lines.\<close>

definition newlines :: "string \<Rightarrow> nat" where
  "newlines s = length (filter (\<lambda>c. c = CHR 0x0A) s)"

definition unlines :: "string list \<Rightarrow> string" where
  "unlines ls = concat (map (\<lambda>l. l @ [CHR 0x0A]) ls)"

section \<open>The command table and \<^verbatim>\<open>execute\<close>\<close>

definition valid_commands :: "string list" where
  "valid_commands =
    [''setup'', ''update'', ''modules'', ''grab_frames'', ''launch'', ''play'', ''record'',
     ''generate'', ''activate'', ''deactivate'', ''plugins'', ''train'', ''capture'',
     ''visual_debugger'', ''window_name'', ''record_inputs'', ''dashboard'',
     ''object_recognition'']"

text \<open>The handler functions that \<^verbatim>\<open>command_function_mapping\<close> names.\<close>

datatype handler =
    H_setup | H_update | H_modules | H_grab_frames | H_activate | H_deactivate
  | H_plugins | H_launch | H_play | H_record | H_generate | H_train | H_capture
  | H_visual_debugger | H_window_name | H_record_inputs | H_dashboard
  | H_object_recognition

definition command_function_mapping :: "(string \<times> handler) list" where
  "command_function_mapping =
    [(''setup'', H_setup), (''update'', H_update), (''modules'', H_modules),
     (''grab_frames'', H_grab_frames), (''activate'', H_activate),
     (''deactivate'', H_deactivate), (''plugins'', H_plugins), (''launch'', H_launch),
     (''play'', H_play), (''record'', H_record), (''generate'', H_generate),
     (''train'', H_train), (''capture'', H_capture),
     (''visual_debugger'', H_visual_debugger), (''window_name'', H_window_name),
     (''record_inputs'', H_record_inputs), (''dashboard'', H_dashboard),
     (''object_recognition'', H_object_recognition)]"

text \<open>
  What \<^verbatim>\<open>execute\<close> does with \<^verbatim>\<open>sys.argv\<close>: it prints the help, raises, calls
  one handler with the remaining arguments, or (on an empty \<^verbatim>\<open>sys.argv\<close>, where
  neither branch of the \<^verbatim>\<open>if\<close>/\<^verbatim>\<open>elif\<close> is taken) does nothing.
\<close>

datatype dispatch =
    Help
  | Fails error
  | Invoke handler "string list"
  | Nothing

definition not_valid_message :: "string \<Rightarrow> string" where
  "not_valid_message command =
     [CHR 0x27] @ command @ [CHR 0x27] @ '' is not a valid Serpent command.''"

definition execute :: "string list \<Rightarrow> dispatch" where
  "execute argv =
     (if length argv = 1 then Help
      else if length argv > 1 then
        (if argv ! 1 = ''-h'' \<or> argv ! 1 = ''--help'' then Help
         else
           (let command = argv ! 1 in
            if command \<notin> set valid_commands
            then Fails (Exception (not_valid_message command))
            else (case map_of command_function_mapping command of
                    None \<Rightarrow> Fails (KeyError command)
                  | Some h \<Rightarrow> Invoke h (drop 2 argv))))
      else Nothing)"

section \<open>Argument values and conversions\<close>

text \<open>
  The values a handler receives: a string of the command line, or the default of an
  omitted parameter (\<^verbatim>\<open>None\<close>, a boolean, an integer).
\<close>

datatype arg = ANone | ABool bool | AInt int | AStr string

text \<open>
  \<^verbatim>\<open>x in [...]\<close> compares with \<^verbatim>\<open>==\<close>, under which \<^verbatim>\<open>True == 1\<close> and
  \<^verbatim>\<open>False == 0\<close>.
\<close>

fun py_eq :: "arg \<Rightarrow> arg \<Rightarrow> bool" where
  "py_eq (ABool a) (AInt i) = (i = (if a then 1 else 0))"
| "py_eq (AInt i) (ABool a) = (i = (if a then 1 else 0))"
| "py_eq x y = (x = y)"

definition py_in :: "arg \<Rightarrow> arg list \<Rightarrow> bool" where
  "py_in x xs = list_ex (py_eq x) xs"

definition argv_is_true :: "arg \<Rightarrow> bool" where
  "argv_is_true a = py_in a [ABool True, AStr ''True'']"

text \<open>
  The builtin \<^verbatim>\<open>int(s)\<close> on a string, base 10: white space around the literal is
  dropped, one sign may lead, and the digits may be grouped by single underscores.
  The white space that \<^verbatim>\<open>int\<close> drops is not that of \<^verbatim>\<open>str.strip\<close>: among the
  ASCII characters it is the tab, the line feed, the vertical tab, the form feed, the
  carriage return and the space only (the separators 0x1C to 0x1F stay and make the
  literal invalid); a character beyond ASCII that is Unicode white space (0x85 and 0xA0
  among the 8-bit characters) is first turned into a space.
\<close>

definition py_isspace :: "char \<Rightarrow> bool" where
  "py_isspace c =
     (let n = (of_char c :: nat)
      in (9 \<le> n \<and> n \<le> 13) \<or> n = 32 \<or> n = 133 \<or> n = 160)"

definition py_strip :: "string \<Rightarrow> string" where
  "py_strip s = rev (dropWhile py_isspace (rev (dropWhile py_isspace s)))"

definition digit_of :: "char \<Rightarrow> nat option" where
  "digit_of c =
     (let n = (of_char c :: nat) in if 48 \<le> n \<and> n \<le> 57 then Some (n - 48) else None)"

fun int_digits :: "nat \<Rightarrow> string \<Rightarrow> nat option" where
  "int_digits acc [] = Some acc"
| "int_digits acc [c] =
     (case digit_of c of None \<Rightarrow> None | Some v \<Rightarrow> Some (acc * 10 + v))"
| "int_digits acc (c # d # ds) =
     (if c = CHR ''_''
      then (case digit_of d of None \<Rightarrow> None | Some v \<Rightarrow> int_digits (acc * 10 + v) ds)
      else (case digit_of c of None \<Rightarrow> None | Some v \<Rightarrow> int_digits (acc * 10 + v) (d # ds)))"

definition unsigned_literal :: "string \<Rightarrow> nat option" where
  "unsigned_literal s =
     (case s of
        [] \<Rightarrow> None
      | c # cs \<Rightarrow> (case digit_of c of None \<Rightarrow> None | Some v \<Rightarrow> int_digits v cs))"

definition int_literal :: "string \<Rightarrow> int option" where
  "int_literal s =
     (case py_strip s of
        [] \<Rightarrow> None
      | c # cs \<Rightarrow>
          if c = CHR ''-'' then map_option (\<lambda>n. - int n) (unsigned_literal cs)
          else if c = CHR ''+'' then map_option int (unsigned_literal cs)
          else map_option int (unsigned_literal (c # cs)))"

fun py_int :: "arg \<Rightarrow> error + int" where
  "py_int ANone =
     Inl (TypeError ''int() argument must be a string, a bytes-like object or a number'')"
| "py_int (ABool b) = Inr (if b then 1 else 0)"
| "py_int (AInt i) = Inr i"
| "py_int (AStr s) = (case int_literal s of None \<Rightarrow> Inl (InvalidLiteral s) | Some i \<Rightarrow> Inr i)"

text \<open>
  A plain decimal string (one or more of the digits 0 to 9, nothing else) and the number
  it denotes, for stating what \<open>int_literal\<close> returns on it.
\<close>

definition is_decimal :: "string \<Rightarrow> bool" where
  "is_decimal s = (s \<noteq> [] \<and> list_all (\<lambda>c. digit_of c \<noteq> None) s)"

definition decimal_value :: "string \<Rightarrow> nat" where
  "decimal_value s = foldl (\<lambda>acc c. acc * 10 + ((of_char c :: nat) - 48)) 0 s"

section \<open>Game plugins\<close>

text \<open>
  A keyword argument of \<^verbatim>\<open>game.play\<close>: an argument value, or the result of
  \<^verbatim>\<open>float(interval)\<close>. Floating point is not modelled: the conversion is a
  parameter of the environment, and \<open>'f\<close> is the type of its results.
\<close>

datatype 'f kwval = KArg arg | KFloat 'f

type_synonym 'f kwargs = "(string \<times> 'f kwval) list"

text \<open>
  A game class is an external collaborator, found by \<^verbatim>\<open>offshoot.discover\<close>. The core
  constructs it (\<^verbatim>\<open>game_class()\<close>), and calls \<^verbatim>\<open>launch\<close> and \<^verbatim>\<open>play\<close> on the
  instance. The instance is a mutable object: \<open>'g\<close> is the type of its states, and each
  method either raises or returns the next state. The argument of \<open>game_launch\<close>
  is \<open>None\<close> for \<^verbatim>\<open>game.launch()\<close> and \<open>Some b\<close> for
  \<^verbatim>\<open>game.launch(dry_run=b)\<close>.
\<close>

record ('g, 'f) game_class =
  new_game :: "error + 'g"
  game_launch :: "bool option \<Rightarrow> 'g \<Rightarrow> error + 'g"
  game_play :: "'f kwargs \<Rightarrow> 'g \<Rightarrow> error + 'g"


text \<open>
  The environment of the game commands: the result of \<^verbatim>\<open>offshoot.discover("Game")\<close>,
  the result of \<^verbatim>\<open>offshoot.discover("GameAgent", selection=name)\<close> for each name (the
  game agent classes are opaque), and the builtin \<^verbatim>\<open>float\<close>.
\<close>

record ('g, 'f) env =
  discover_game :: "string \<rightharpoonup> ('g, 'f) game_class"
  discover_game_agent :: "string \<Rightarrow> string \<rightharpoonup> unit"
  py_float :: "arg \<Rightarrow> error + 'f"

text \<open>
  The calls a handler makes on its collaborators, in order. \<open>Launch a g\<close> and
  \<open>Play kw g\<close> are calls on the instance in state \<open>g\<close>. \<open>Terminate g\<close> is the
  \<^verbatim>\<open>terminate\<close> of the spec's GameLifecycleController.
\<close>

datatype ('g, 'f) event =
    Discover string "string option"
  | New string
  | Launch "bool option" 'g
  | Play "'f kwargs" 'g
  | Terminate 'g

text \<open>
  A handler's run: how it ends (\<open>Inl\<close> the exception that propagates) and the calls it
  made. \<open>seq\<close> runs the rest of a handler after a step that did not raise.
\<close>

type_synonym ('a, 'e) run = "(error + 'a) \<times> 'e list"

definition seq :: "('a, 'e) run \<Rightarrow> ('a \<Rightarrow> ('b, 'e) run) \<Rightarrow> ('b, 'e) run" where
  "seq m f =
     (case m of
        (Inl e, t) \<Rightarrow> (Inl e, t)
      | (Inr x, t) \<Rightarrow> (case f x of (r, t') \<Rightarrow> (r, t @ t')))"

definition pure :: "error + 'a \<Rightarrow> ('a, 'e) run" where
  "pure r = (r, [])"

definition call_new :: "string \<Rightarrow> ('g, 'f) game_class \<Rightarrow> ('g, ('g, 'f) event) run" where
  "call_new name cls = (new_game cls, [New name])"

definition call_launch ::
  "('g, 'f) game_class \<Rightarrow> bool option \<Rightarrow> 'g \<Rightarrow> ('g, ('g, 'f) event) run" where
  "call_launch cls a g = (game_launch cls a g, [Launch a g])"

definition call_play ::
  "('g, 'f) game_class \<Rightarrow> 'f kwargs \<Rightarrow> 'g \<Rightarrow> (unit, ('g, 'f) event) run" where
  "call_play cls kw g = (map_sum id (\<lambda>_. ()) (game_play cls kw g), [Play kw g])"

definition game_not_found :: "string \<Rightarrow> string" where
  "game_not_found game_name =
     ''Game '' @ [CHR 0x27] @ game_name @ [CHR 0x27]
       @ '' wasn't found. Make sure the plugin is installed.''"

definition game_agent_not_found :: "string \<Rightarrow> string" where
  "game_agent_not_found game_agent_name =
     ''Game Agent '' @ [CHR 0x27] @ game_agent_name @ [CHR 0x27]
       @ '' wasn't found. Make sure the plugin is installed.''"

definition initialize_game ::
  "('g, 'f) env \<Rightarrow> string \<Rightarrow> (('g, 'f) game_class \<times> 'g, ('g, 'f) event) run" where
  "initialize_game env game_name =
     (let game_class_name = ''Serpent'' @ game_name @ ''Game'';
          game_class_mapping = discover_game env
      in seq (Inr (game_class_mapping game_class_name), [Discover ''Game'' None])
           (\<lambda>game_class.
              case game_class of
                None \<Rightarrow> pure (Inl (Exception (game_not_found game_name)))
              | Some cls \<Rightarrow> seq (call_new game_class_name cls) (\<lambda>game. pure (Inr (cls, game)))))"

definition launch :: "('g, 'f) env \<Rightarrow> string \<Rightarrow> (unit, ('g, 'f) event) run" where
  "launch env game_name =
     seq (initialize_game env game_name) (\<lambda>(cls, game).
     seq (call_launch cls None game) (\<lambda>game. pure (Inr ())))"

definition play ::
  "('g, 'f) env \<Rightarrow> string \<Rightarrow> string \<Rightarrow> arg \<Rightarrow> (unit, ('g, 'f) event) run" where
  "play env game_name game_agent_name frame_handler =
     seq (initialize_game env game_name) (\<lambda>(cls, game).
     seq (call_launch cls (Some True) game) (\<lambda>game.
     seq (Inr (discover_game_agent env game_agent_name),
          [Discover ''GameAgent'' (Some game_agent_name)]) (\<lambda>game_agent_class_mapping.
       let game_agent_class = game_agent_class_mapping game_agent_name
       in if game_agent_class = None
          then pure (Inl (Exception (game_agent_not_found game_agent_name)))
          else call_play cls
                 [(''game_agent_class_name'', KArg (AStr game_agent_name)),
                  (''frame_handler'', KArg frame_handler)] game)))"

definition record_command ::
  "('g, 'f) env \<Rightarrow> string \<Rightarrow> string \<Rightarrow> arg \<Rightarrow> arg \<Rightarrow> (unit, ('g, 'f) event) run" where
  "record_command env game_name game_agent_name frame_count frame_spacing =
     seq (initialize_game env game_name) (\<lambda>(cls, game).
     seq (call_launch cls (Some True) game) (\<lambda>game.
     seq (pure (py_int frame_count)) (\<lambda>frame_count.
     seq (pure (py_int frame_spacing)) (\<lambda>frame_spacing.
       call_play cls
         [(''game_agent_class_name'', KArg (AStr game_agent_name)),
          (''frame_handler'', KArg (AStr ''RECORD'')),
          (''frame_count'', KArg (AInt frame_count)),
          (''frame_spacing'', KArg (AInt frame_spacing))] game))))"

definition capture ::
  "('g, 'f) env \<Rightarrow> string \<Rightarrow> string \<Rightarrow> arg \<Rightarrow> arg \<Rightarrow> arg \<Rightarrow> (unit, ('g, 'f) event) run" where
  "capture env capture_type game_name interval extra extra_2 =
     seq (initialize_game env game_name) (\<lambda>(cls, game).
     seq (call_launch cls (Some True) game) (\<lambda>game.
       if capture_type \<notin> set [''frame'', ''context'', ''region'']
       then pure (Inl (Exception ''Invalid capture command.''))
       else if capture_type = ''frame'' then
         seq (pure (py_float env interval)) (\<lambda>interval.
           call_play cls
             [(''frame_handler'', KArg (AStr ''COLLECT_FRAMES'')),
              (''interval'', KFloat interval)] game)
       else if capture_type = ''context'' then
         seq (pure (py_float env interval)) (\<lambda>interval.
           call_play cls
             [(''frame_handler'', KArg (AStr ''COLLECT_FRAMES_FOR_CONTEXT'')),
              (''interval'', KFloat interval),
              (''context'', KArg extra),
              (''screen_region'', KArg extra_2)] game)
       else if capture_type = ''region'' then
         seq (pure (py_float env interval)) (\<lambda>interval.
           call_play cls
             [(''frame_handler'', KArg (AStr ''COLLECT_FRAME_REGIONS'')),
              (''interval'', KFloat interval),
              (''region'', KArg extra)] game)
       else pure (Inr ())))"

text \<open>
  The handlers as \<^verbatim>\<open>execute\<close> calls them, \<^verbatim>\<open>handler(*sys.argv[2:])\<close>: the
  strings of the command line bind the parameters in order, an omitted parameter takes
  its default, and a wrong number of arguments is a \<^verbatim>\<open>TypeError\<close>.
\<close>

fun launch_argv :: "('g, 'f) env \<Rightarrow> string list \<Rightarrow> (unit, ('g, 'f) event) run" where
  "launch_argv env [g] = launch env g"
| "launch_argv env _ = pure (Inl (TypeError ''launch()''))"

fun play_argv :: "('g, 'f) env \<Rightarrow> string list \<Rightarrow> (unit, ('g, 'f) event) run" where
  "play_argv env [g, a] = play env g a ANone"
| "play_argv env [g, a, fh] = play env g a (AStr fh)"
| "play_argv env _ = pure (Inl (TypeError ''play()''))"

fun record_argv :: "('g, 'f) env \<Rightarrow> string list \<Rightarrow> (unit, ('g, 'f) event) run" where
  "record_argv env [g, a] = record_command env g a (AInt 4) (AInt 4)"
| "record_argv env [g, a, fc] = record_command env g a (AStr fc) (AInt 4)"
| "record_argv env [g, a, fc, fs] = record_command env g a (AStr fc) (AStr fs)"
| "record_argv env _ = pure (Inl (TypeError ''record()''))"

fun capture_argv :: "('g, 'f) env \<Rightarrow> string list \<Rightarrow> (unit, ('g, 'f) event) run" where
  "capture_argv env [c, g] = capture env c g (AInt 1) ANone ANone"
| "capture_argv env [c, g, i] = capture env c g (AStr i) ANone ANone"
| "capture_argv env [c, g, i, e] = capture env c g (AStr i) (AStr e) ANone"
| "capture_argv env [c, g, i, e, e2] = capture env c g (AStr i) (AStr e) (AStr e2)"
| "capture_argv env _ = pure (Inl (TypeError ''capture()''))"

section \<open>Training hand-off\<close>

text \<open>
  The training collaborators: the \<^verbatim>\<open>ObjectRecognizer\<close> class (its constructor and
  the \<^verbatim>\<open>train\<close> method of an instance, \<open>'r\<close> being the type of instances) and the
  class-level entry point \<^verbatim>\<open>ContextClassifier.executable_train\<close>.
\<close>

record 'r training =
  new_object_recognizer :: "string \<Rightarrow> string \<Rightarrow> string \<Rightarrow> string list \<Rightarrow> error + 'r"
  recognizer_train :: "'r \<Rightarrow> error + unit"
  executable_train :: "int \<Rightarrow> bool \<Rightarrow> bool \<Rightarrow> error + unit"

text \<open>
  The calls of a training command. \<open>SignalSIGINT r\<close> is
  \<^verbatim>\<open>signal.signal(signal.SIGINT, r.on_interrupt)\<close>: from then on an interrupt signal
  calls the \<^verbatim>\<open>on_interrupt\<close> of the instance \<open>r\<close>.
\<close>

datatype 'r train_event =
    NewObjectRecognizer string string string "string list"
  | SignalSIGINT 'r
  | Train 'r
  | ExecutableTrain int bool bool

definition train_context ::
  "'r training \<Rightarrow> arg \<Rightarrow> arg \<Rightarrow> arg \<Rightarrow> (unit, 'r train_event) run" where
  "train_context tr epochs validate autosave =
     (if \<not> py_in validate [ABool True, AStr ''True'', ABool False, AStr ''False'']
      then pure (Inl (ValueError
             ([CHR 0x27] @ ''validate'' @ [CHR 0x27] @ '' should be True or False'')))
      else if \<not> py_in autosave [ABool True, AStr ''True'', ABool False, AStr ''False'']
      then pure (Inl (ValueError
             ([CHR 0x27] @ ''autosave'' @ [CHR 0x27] @ '' should be True or False'')))
      else
        seq (pure (py_int epochs)) (\<lambda>epochs.
          (executable_train tr epochs (argv_is_true validate) (argv_is_true autosave),
           [ExecutableTrain epochs (argv_is_true validate) (argv_is_true autosave)])))"

definition train_object ::
  "'r training \<Rightarrow> string \<Rightarrow> string \<Rightarrow> string list \<Rightarrow> (unit, 'r train_event) run" where
  "train_object tr name algorithm classes =
     (let backend = ''luminoth'';
          backend_mapping = [''luminoth'' \<mapsto> ''LUMINOTH'']
      in seq (pure (case backend_mapping backend of
                      None \<Rightarrow> Inl (KeyError backend) | Some b \<Rightarrow> Inr b)) (\<lambda>b.
         seq (new_object_recognizer tr name b algorithm classes,
              [NewObjectRecognizer name b algorithm classes]) (\<lambda>object_recognizer.
         seq (Inr (), [SignalSIGINT object_recognizer]) (\<lambda>_.
           (recognizer_train tr object_recognizer, [Train object_recognizer])))))"

fun train_context_argv :: "'r training \<Rightarrow> string list \<Rightarrow> (unit, 'r train_event) run" where
  "train_context_argv tr [] = train_context tr (AInt 3) (ABool True) (ABool False)"
| "train_context_argv tr [e] = train_context tr (AStr e) (ABool True) (ABool False)"
| "train_context_argv tr [e, v] = train_context tr (AStr e) (AStr v) (ABool False)"
| "train_context_argv tr [e, v, a] = train_context tr (AStr e) (AStr v) (AStr a)"
| "train_context_argv tr _ = pure (Inl (TypeError ''train_context()''))"

fun train_object_argv :: "'r training \<Rightarrow> string list \<Rightarrow> (unit, 'r train_event) run" where
  "train_object_argv tr (name # algorithm # classes) = train_object tr name algorithm classes"
| "train_object_argv tr _ = pure (Inl (TypeError ''train_object()''))"

definition train :: "'r training \<Rightarrow> string \<Rightarrow> string list \<Rightarrow> (unit, 'r train_event) run" where
  "train tr training_type args =
     (if training_type = ''context'' then train_context_argv tr args
      else if training_type = ''object'' then train_object_argv tr args
      else pure (Inr ()))"

section \<open>Plugin scaffolding\<close>

subsection \<open>The text of the generated game file\<close>

text \<open>The literal texts of the template that the platform branches look for.\<close>

definition web_browser_import :: string where
  "web_browser_import =
     ''from serpent.game_launchers.web_browser_game_launcher import WebBrowser''"

definition executable_path_line :: string where
  \<open>executable_path_line = ''kwargs["executable_path"] = "EXECUTABLE_PATH"''\<close>

definition url_line :: string where
  \<open>url_line = ''kwargs["url"] = "URL"''\<close>

definition browser_line :: string where
  \<open>browser_line = ''kwargs["browser"] = WebBrowser.DEFAULT''\<close>

definition app_id_line :: string where
  \<open>app_id_line = ''kwargs["app_id"] = "APP_ID"''\<close>

definition app_args_line :: string where
  \<open>app_args_line = ''kwargs["app_args"] = None''\<close>

text \<open>
  What \<^verbatim>\<open>prepare_game_plugin\<close> makes of the contents of the template's game file
  (the replacements between reading and writing it back).
\<close>

definition game_file_contents :: "string \<Rightarrow> string \<Rightarrow> string \<Rightarrow> string" where
  "game_file_contents game_name game_platform contents =
     (let contents = replace ''SerpentGame'' (''Serpent'' @ game_name @ ''Game'') contents;
          contents = replace ''MyGameAPI'' (game_name @ ''API'') contents
      in if game_platform = ''steam'' then
           (let contents = replace ''PLATFORM'' ''steam'' contents;
                contents = replace web_browser_import [] contents;
                contents = replace executable_path_line [] contents;
                contents = replace url_line [] contents;
                contents = replace browser_line [] contents
            in contents)
         else if game_platform = ''executable'' then
           (let contents = replace ''PLATFORM'' ''executable'' contents;
                contents = replace web_browser_import [] contents;
                contents = replace app_id_line [] contents;
                contents = replace app_args_line [] contents;
                contents = replace url_line [] contents;
                contents = replace browser_line [] contents
            in contents)
         else if game_platform = ''web_browser'' then
           (let contents = replace ''PLATFORM'' ''web_browser'' contents;
                contents = replace app_id_line [] contents;
                contents = replace app_args_line [] contents;
                contents = replace executable_path_line [] contents
            in contents)
         else contents)"

definition plugin_file_contents :: "string \<Rightarrow> string \<Rightarrow> string" where
  "plugin_file_contents game_name contents =
     (let contents = replace ''SerpentGamePlugin'' (''Serpent'' @ game_name @ ''GamePlugin'') contents;
          contents = replace ''serpent_game.py'' (''serpent_'' @ game_name @ ''_game.py'') contents
      in contents)"

subsection \<open>The file system\<close>

text \<open>
  The file system is a map from paths to nodes. The existence of parent directories is
  not tracked. An operation that raises leaves the file system as it was.
\<close>

datatype node = Dir | File string

type_synonym fs = "string \<rightharpoonup> node"

type_synonym 'a io = "fs \<Rightarrow> (error + 'a) \<times> fs"

definition io_seq :: "'a io \<Rightarrow> ('a \<Rightarrow> 'b io) \<Rightarrow> 'b io" where
  "io_seq m f = (\<lambda>fs. case m fs of (Inl e, fs') \<Rightarrow> (Inl e, fs') | (Inr x, fs') \<Rightarrow> f x fs')"

text \<open>
  The environment of the generator: \<^verbatim>\<open>offshoot.config['file_paths']['plugins']\<close>,
  \<^verbatim>\<open>os.sep\<close>, the directory of the package (\<^verbatim>\<open>os.path.dirname(__file__)\<close>) and the
  tree \<^verbatim>\<open>templates/SerpentGamePlugin\<close> in it: a map from the paths below the template
  directory (relative, components joined by \<^verbatim>\<open>os.sep\<close>) to nodes, or \<open>None\<close> when
  the directory is missing. The package directory is read only: it is taken to be apart
  from the plugin tree that the generator writes.
\<close>

record scaffold_env =
  plugins_path :: string
  os_sep :: char
  package_dir :: string
  game_plugin_template :: "(string \<rightharpoonup> node) option"

definition os_path :: "scaffold_env \<Rightarrow> string \<Rightarrow> string" where
  "os_path env p = replace ''/'' [os_sep env] p"

definition read_file :: "string \<Rightarrow> string io" where
  "read_file p fs =
     (case fs p of
        None \<Rightarrow> (Inl (FileNotFoundError p), fs)
      | Some Dir \<Rightarrow> (Inl (IsADirectoryError p), fs)
      | Some (File c) \<Rightarrow> (Inr c, fs))"

definition write_file :: "string \<Rightarrow> string \<Rightarrow> unit io" where
  "write_file p c fs =
     (case fs p of
        Some Dir \<Rightarrow> (Inl (IsADirectoryError p), fs)
      | _ \<Rightarrow> (Inr (), fs(p \<mapsto> File c)))"

text \<open>
  \<^verbatim>\<open>shutil.copytree(template, dst)\<close>: the template directory is listed first, then
  \<^verbatim>\<open>os.makedirs(dst)\<close> raises \<^verbatim>\<open>FileExistsError\<close> when \<open>dst\<close> exists; otherwise
  the tree appears below \<open>dst\<close>.
\<close>

definition copytree :: "scaffold_env \<Rightarrow> string \<Rightarrow> unit io" where
  "copytree env dst fs =
     (case game_plugin_template env of
        None \<Rightarrow>
          (Inl (FileNotFoundError
             (package_dir env @ [os_sep env] @ os_path env ''templates/SerpentGamePlugin'')), fs)
      | Some tree \<Rightarrow>
          if fs dst \<noteq> None then (Inl (FileExistsError dst), fs)
          else (Inr (),
                (\<lambda>p. if p = dst then Some Dir
                     else if prefix (dst @ [os_sep env]) p
                     then (case tree (drop (length dst + 1) p) of
                             None \<Rightarrow> fs p | Some n \<Rightarrow> Some n)
                     else fs p)))"

text \<open>
  \<^verbatim>\<open>shutil.move(a, b)\<close>: into \<open>b\<close> when \<open>b\<close> is a directory, else a rename of
  \<open>a\<close> (with everything below it) to \<open>b\<close>.
\<close>

definition basename :: "scaffold_env \<Rightarrow> string \<Rightarrow> string" where
  "basename env p = rev (takeWhile (\<lambda>c. c \<noteq> os_sep env) (rev p))"

definition rename :: "scaffold_env \<Rightarrow> string \<Rightarrow> string \<Rightarrow> fs \<Rightarrow> fs" where
  "rename env a b fs =
     (\<lambda>p. if p = b \<or> prefix (b @ [os_sep env]) p then fs (a @ drop (length b) p)
          else if p = a \<or> prefix (a @ [os_sep env]) p then None
          else fs p)"

definition move :: "scaffold_env \<Rightarrow> string \<Rightarrow> string \<Rightarrow> unit io" where
  "move env a b fs =
     (case fs a of
        None \<Rightarrow> (Inl (FileNotFoundError a), fs)
      | Some n \<Rightarrow>
          if fs b = Some Dir then
            (if a = b then (Inr (), fs)
             else
               (let real_dst = b @ [os_sep env] @ basename env a
                in if fs real_dst \<noteq> None then (Inl (ShutilError real_dst), fs)
                   else (Inr (), rename env a real_dst fs)))
          else if n = Dir \<and> fs b \<noteq> None then (Inl (FileExistsError b), fs)
          else (Inr (), rename env a b fs))"

definition plugin_destination_path :: "scaffold_env \<Rightarrow> string \<Rightarrow> string" where
  "plugin_destination_path env game_name =
     os_path env (plugins_path env @ ''/Serpent'' @ game_name @ ''GamePlugin'')"

definition prepare_game_plugin :: "scaffold_env \<Rightarrow> string \<Rightarrow> string \<Rightarrow> unit io" where
  "prepare_game_plugin env game_name game_platform =
     (let dst = plugin_destination_path env game_name;
          plugin_py = os_path env (dst @ ''/plugin.py'');
          game_py = os_path env (dst @ ''/files/serpent_'' @ game_name @ ''_game.py'');
          api_py = os_path env (dst @ ''/files/api/api.py'')
      in io_seq (copytree env dst) (\<lambda>_.
         io_seq (read_file plugin_py) (\<lambda>contents.
         io_seq (write_file plugin_py (plugin_file_contents game_name contents)) (\<lambda>_.
         io_seq (move env (os_path env (dst @ ''/files/serpent_game.py'')) game_py) (\<lambda>_.
         io_seq (read_file game_py) (\<lambda>contents.
         io_seq (write_file game_py (game_file_contents game_name game_platform contents)) (\<lambda>_.
         io_seq (read_file api_py) (\<lambda>contents.
         write_file api_py (replace ''MyGameAPI'' (game_name @ ''API'') contents)))))))))"

text \<open>
  An operation keeps the directory \<open>d\<close> when, run on a file system where \<open>d\<close> is a
  directory, it leaves \<open>d\<close> a directory, whether it returns or raises.
\<close>

definition keeps_dir :: "string \<Rightarrow> 'a io \<Rightarrow> bool" where
  "keeps_dir d m = (\<forall>fs r fs'. m fs = (r, fs') \<longrightarrow> fs d = Some Dir \<longrightarrow> fs' d = Some Dir)"

section \<open>Example collaborators\<close>

text \<open>
  A game class whose instance counts the calls made on it and never raises, a registry
  that knows this class as \<^verbatim>\<open>SerpentFooGame\<close> and no game agent, a float conversion
  that keeps its argument, and training collaborators that never raise.
\<close>

definition example_class :: "(nat, arg) game_class" where
  "example_class =
     \<lparr>new_game = Inr 0, game_launch = (\<lambda>a g. Inr (Suc g)), game_play = (\<lambda>kw g. Inr (Suc g))\<rparr>"

definition example_env :: "(nat, arg) env" where
  "example_env =
     \<lparr>discover_game = [''SerpentFooGame'' \<mapsto> example_class],
      discover_game_agent = (\<lambda>selection. Map.empty),
      py_float = Inr\<rparr>"

definition example_training :: "string training" where
  "example_training =
     \<lparr>new_object_recognizer = (\<lambda>name b algorithm classes. Inr name),
      recognizer_train = (\<lambda>r. Inr ()),
      executable_train = (\<lambda>epochs validate autosave. Inr ())\<rparr>"

text \<open>
  A template tree with a three-line game file, and a generator environment on a system
  whose separator is the slash.
\<close>

definition example_game_file :: string where
  "example_game_file = unlines [''class SerpentGame:'', ''    '' @ url_line, ''    pass'']"

definition example_template :: "string \<rightharpoonup> node" where
  "example_template =
     [''plugin.py'' \<mapsto> File ''SerpentGamePlugin'',
      ''files'' \<mapsto> Dir,
      ''files/serpent_game.py'' \<mapsto> File example_game_file,
      ''files/api'' \<mapsto> Dir,
      ''files/api/api.py'' \<mapsto> File ''MyGameAPI'']"

definition example_scaffold_env :: scaffold_env where
  "example_scaffold_env =
     \<lparr>plugins_path = ''plugins'', os_sep = CHR ''/'', package_dir = ''pkg'',
      game_plugin_template = Some example_template\<rparr>"

section \<open>Dispatch of unknown commands\<close>

lemma execute_help_flags:
  "execute [prog, ''-h''] = Help" "execute [prog, ''--help''] = Help"
  by (simp_all add: execute_def)

text \<open>
  C7, as stated, fails: the tokens \<^verbatim>\<open>-h\<close> and \<^verbatim>\<open>--help\<close> are not in the
  valid-command table, and \<^verbatim>\<open>execute\<close> shows the help for them instead of failing.
\<close>

theorem C7_help_flag_counterexample:
  "''-h'' \<notin> set valid_commands \<and> execute [''serpent'', ''-h''] = Help"
  by (simp add: execute_def valid_commands_def)

text \<open>
  C7 (amended): for every command token that is not in the valid-command table and is
  neither \<^verbatim>\<open>-h\<close> nor \<^verbatim>\<open>--help\<close>, \<^verbatim>\<open>execute\<close> raises the exception whose message
  names the token, whatever arguments follow, and so invokes no handler; with no
  argument after the program name it shows the help.
\<close>

theorem C7_unknown_command:
  "command \<notin> set valid_commands \<Longrightarrow> command \<noteq> ''-h'' \<Longrightarrow> command \<noteq> ''--help'' \<Longrightarrow>
     execute (prog # command # args) = Fails (Exception (not_valid_message command))
     \<and> (\<forall>h as. execute (prog # command # args) \<noteq> Invoke h as)
     \<and> execute [prog] = Help"
  by (simp add: execute_def)

theorem C7_unknown_command_witness:
  "''fly'' \<notin> set valid_commands \<and> ''fly'' \<noteq> ''-h'' \<and> ''fly'' \<noteq> ''--help''
   \<and> execute [''serpent'', ''fly'', ''now''] =
       Fails (Exception ([CHR 0x27] @ ''fly'' @ [CHR 0x27] @ '' is not a valid Serpent command.''))
   \<and> execute [''serpent''] = Help"
proof -
  have h: "''fly'' \<notin> set valid_commands" by (simp add: valid_commands_def)
  show ?thesis
    using h C7_unknown_command [OF h, of "''serpent''" "[''now'']"]
    by (simp add: not_valid_message_def)
qed

section \<open>The game commands\<close>

lemmas run_defs = seq_def pure_def call_new_def call_launch_def call_play_def Let_def

lemma initialize_game_None:
  "discover_game env (''Serpent'' @ n @ ''Game'') = None \<Longrightarrow>
   initialize_game env n = (Inl (Exception (game_not_found n)), [Discover ''Game'' None])"
  by (simp add: initialize_game_def run_defs)

lemma initialize_game_Some:
  "discover_game env (''Serpent'' @ n @ ''Game'') = Some cls \<Longrightarrow>
   initialize_game env n =
     (map_sum id (Pair cls) (new_game cls),
      [Discover ''Game'' None, New (''Serpent'' @ n @ ''Game'')])"
  by (simp add: initialize_game_def run_defs split: sum.splits)

lemma example_lookup:
  "discover_game example_env ''SerpentFooGame'' = Some example_class"
  "discover_game example_env ''SerpentBarGame'' = None"
  "new_game example_class = Inr 0"
  "game_launch example_class a g = Inr (Suc g)"
  "game_play example_class kw g = Inr (Suc g)"
  by (simp_all add: example_env_def example_class_def)

subsection \<open>No call of terminate\<close>

text \<open>
  C1, as stated, fails. With the game plugin \<^verbatim>\<open>Foo\<close> installed and no game agent
  \<^verbatim>\<open>Bar\<close>, \<^verbatim>\<open>play Foo Bar\<close> constructs the game, launches it and then raises
  because the agent is missing: the exception propagates and \<^verbatim>\<open>terminate\<close> is not
  called on the game. Nor is it on normal completion: \<^verbatim>\<open>capture frame Foo\<close> returns
  after the play call.
\<close>

theorem C1_no_terminate_counterexample:
  "play example_env ''Foo'' ''Bar'' ANone =
     (Inl (Exception (game_agent_not_found ''Bar'')),
      [Discover ''Game'' None, New ''SerpentFooGame'', Launch (Some True) 0,
       Discover ''GameAgent'' (Some ''Bar'')])
   \<and> capture example_env ''frame'' ''Foo'' (AInt 1) ANone ANone =
     (Inr (),
      [Discover ''Game'' None, New ''SerpentFooGame'', Launch (Some True) 0,
       Play [(''frame_handler'', KArg (AStr ''COLLECT_FRAMES'')),
             (''interval'', KFloat (AInt 1))] (Suc 0)])
   \<and> \<not> (\<exists>g. Terminate g \<in> set (snd (play example_env ''Foo'' ''Bar'' ANone)))
   \<and> \<not> (\<exists>g. Terminate g \<in> set (snd (capture example_env ''frame'' ''Foo'' (AInt 1) ANone ANone)))"
  by (simp add: play_def capture_def initialize_game_def run_defs example_env_def
      example_class_def)

text \<open>
  C1 (amended): no command handler that constructs a game (launch, play, record,
  capture) ever calls \<^verbatim>\<open>terminate\<close> on it, neither when it returns nor when an exception
  propagates: the calls it makes on its collaborators are discover, the constructor,
  launch and play only.
\<close>

theorem C1_handlers_never_terminate:
  "Terminate g \<notin> set (snd (launch env n))
   \<and> Terminate g \<notin> set (snd (play env n a fh))
   \<and> Terminate g \<notin> set (snd (record_command env n a fc fs))
   \<and> Terminate g \<notin> set (snd (capture env ct n i e e2))"
  by (auto simp add: launch_def play_def record_command_def capture_def initialize_game_def
      run_defs split: sum.splits option.splits prod.splits if_splits)

subsection \<open>The play call comes after a dry-run launch\<close>







subsection \<open>A game that is not installed\<close>

text \<open>
  C6: when the registry has no class named \<^verbatim>\<open>Serpent\<close> + game name + \<^verbatim>\<open>Game\<close>,
  \<^verbatim>\<open>initialize_game\<close> raises the exception whose message carries the game name and
  says to make sure the plugin is installed; it and every command built on it (launch,
  play, record, capture) have then made one call only, the registry lookup: no game is
  constructed, launched or played.
\<close>

theorem C6_game_not_found:
  assumes "discover_game env (''Serpent'' @ n @ ''Game'') = None"
  shows "initialize_game env n = (Inl (Exception (game_not_found n)), [Discover ''Game'' None])
    \<and> launch env n = (Inl (Exception (game_not_found n)), [Discover ''Game'' None])
    \<and> play env n a fh = (Inl (Exception (game_not_found n)), [Discover ''Game'' None])
    \<and> record_command env n a fc fs =
        (Inl (Exception (game_not_found n)), [Discover ''Game'' None])
    \<and> capture env ct n i e e2 = (Inl (Exception (game_not_found n)), [Discover ''Game'' None])"
  using initialize_game_None [OF assms]
  by (simp add: launch_def play_def record_command_def capture_def seq_def)

theorem C6_game_not_found_witness:
  "discover_game example_env (''Serpent'' @ ''Bar'' @ ''Game'') = None
   \<and> initialize_game example_env ''Bar'' =
       (Inl (Exception (''Game '' @ [CHR 0x27] @ ''Bar'' @ [CHR 0x27]
               @ '' wasn't found. Make sure the plugin is installed.'')),
        [Discover ''Game'' None])
   \<and> play example_env ''Bar'' ''Agent'' ANone =
       (Inl (Exception (game_not_found ''Bar'')), [Discover ''Game'' None])"
proof -
  have h: "discover_game example_env (''Serpent'' @ ''Bar'' @ ''Game'') = None"
    by (simp add: example_env_def)
  from C6_game_not_found [OF h, of "''Agent''" ANone "AInt 4" "AInt 4" "''frame''" "AInt 1"
      ANone ANone]
  show ?thesis using h by (simp add: game_not_found_def)
qed

subsection \<open>An invalid capture type\<close>

text \<open>
  C10: with a capture type other than frame, context and region, \<^verbatim>\<open>capture\<close> never
  calls \<^verbatim>\<open>game.play\<close>, and once the game is found, constructed and launched with
  \<^verbatim>\<open>dry_run=True\<close>, it raises "Invalid capture command.": the lookup, the
  construction and the launch have all happened by then.
\<close>

theorem C10_invalid_capture_after_launch:
  assumes "ct \<notin> {''frame'', ''context'', ''region''}"
  shows "Play kw g \<notin> set (snd (capture env ct n i e e2))
    \<and> (discover_game env (''Serpent'' @ n @ ''Game'') = Some cls \<and> new_game cls = Inr g0
         \<and> game_launch cls (Some True) g0 = Inr g1 \<longrightarrow>
       capture env ct n i e e2 =
         (Inl (Exception ''Invalid capture command.''),
          [Discover ''Game'' None, New (''Serpent'' @ n @ ''Game''), Launch (Some True) g0]))"
  using assms
  by (auto simp add: capture_def initialize_game_def run_defs
      split: sum.splits option.splits prod.splits)

theorem C10_invalid_capture_after_launch_witness:
  "''bogus'' \<notin> {''frame'', ''context'', ''region''}
   \<and> discover_game example_env (''Serpent'' @ ''Foo'' @ ''Game'') = Some example_class
   \<and> new_game example_class = Inr 0
   \<and> game_launch example_class (Some True) 0 = Inr (Suc 0)
   \<and> capture example_env ''bogus'' ''Foo'' (AInt 1) ANone ANone =
       (Inl (Exception ''Invalid capture command.''),
        [Discover ''Game'' None, New ''SerpentFooGame'', Launch (Some True) 0])"
proof -
  have h: "''bogus'' \<notin> {''frame'', ''context'', ''region''}" by simp
  have found: "discover_game example_env (''Serpent'' @ ''Foo'' @ ''Game'') = Some example_class
     \<and> new_game example_class = Inr 0
     \<and> game_launch example_class (Some True) 0 = Inr (Suc 0)"
    by (simp add: example_env_def example_class_def)
  from C10_invalid_capture_after_launch
    [OF h, of "[]" 0 example_env "''Foo''" "AInt 1" ANone ANone example_class 0 "Suc 0"]
  show ?thesis using h found by simp
qed

subsection \<open>Integer literals\<close>

lemma digit_of_Some: "digit_of c \<noteq> None \<Longrightarrow> digit_of c = Some ((of_char c :: nat) - 48)"
  by (simp add: digit_of_def Let_def split: if_splits)

lemma digit_not_underscore: "digit_of c \<noteq> None \<Longrightarrow> c \<noteq> CHR ''_'' \<and> c \<noteq> CHR ''-'' \<and> c \<noteq> CHR ''+''"
  by (auto simp add: digit_of_def Let_def split: if_splits)

lemma digit_not_space: "digit_of c \<noteq> None \<Longrightarrow> \<not> py_isspace c"
  by (auto simp add: digit_of_def py_isspace_def Let_def split: if_splits)

lemma int_digits_decimal:
  "list_all (\<lambda>c. digit_of c \<noteq> None) s \<Longrightarrow>
   int_digits acc s = Some (foldl (\<lambda>acc c. acc * 10 + ((of_char c :: nat) - 48)) acc s)"
proof (induction acc s rule: int_digits.induct)
  case (1 acc)
  then show ?case by simp
next
  case (2 acc c)
  then show ?case by (simp add: digit_of_Some)
next
  case (3 acc c d ds)
  from "3.prems" have c: "digit_of c \<noteq> None" and rest: "list_all (\<lambda>c. digit_of c \<noteq> None) (d # ds)"
    by simp_all
  from c have nu: "c \<noteq> CHR ''_''" using digit_not_underscore by blast
  from "3.IH"(2) [OF nu digit_of_Some [OF c] rest] nu c show ?case
    by (simp add: digit_of_Some)
qed

lemma dropWhile_hd: "xs \<noteq> [] \<Longrightarrow> \<not> P (hd xs) \<Longrightarrow> dropWhile P xs = xs"
  by (cases xs) simp_all

lemma py_strip_decimal:
  assumes "is_decimal s" shows "py_strip s = s"
proof -
  from assms obtain c cs where s: "s = c # cs" by (cases s) (auto simp: is_decimal_def)
  from assms have all: "list_all (\<lambda>c. digit_of c \<noteq> None) s" by (simp add: is_decimal_def)
  have h: "\<not> py_isspace (hd s)" using all s digit_not_space by simp
  have "last s \<in> set s" using s by simp
  with all have "digit_of (last s) \<noteq> None" by (simp add: list_all_iff)
  then have l: "\<not> py_isspace (last s)" by (rule digit_not_space)
  have 1: "dropWhile py_isspace s = s" using h s by simp
  have "rev s \<noteq> []" using s by simp
  moreover have "hd (rev s) = last s" using s by (simp add: hd_rev)
  ultimately have 2: "dropWhile py_isspace (rev s) = rev s" using l by (simp add: dropWhile_hd)
  show ?thesis by (simp add: py_strip_def 1 2)
qed

lemma int_literal_decimal:
  assumes "is_decimal s" shows "int_literal s = Some (int (decimal_value s))"
proof -
  from assms obtain c cs where s: "s = c # cs" by (cases s) (auto simp: is_decimal_def)
  from assms s have c: "digit_of c \<noteq> None" and cs: "list_all (\<lambda>c. digit_of c \<noteq> None) cs"
    by (simp_all add: is_decimal_def)
  have "unsigned_literal (c # cs) = Some (decimal_value (c # cs))"
    using int_digits_decimal [OF cs] digit_of_Some [OF c]
    by (simp add: unsigned_literal_def decimal_value_def)
  then show ?thesis
    using py_strip_decimal [OF assms] digit_not_underscore [OF c] s
    by (simp add: int_literal_def)
qed

text \<open>
  What \<open>int_literal\<close> takes and refuses, as \<^verbatim>\<open>int\<close> does: white space around the
  literal, a sign and single underscores between digits are taken; a separator character
  0x1C before the digits, white space inside, a doubled, leading or trailing underscore,
  a lone sign and the empty string are refused.
\<close>

lemma int_literal_accepted:
  "int_literal ([CHR 0x20, CHR 0x09] @ ''-1_2'' @ [CHR 0x0A]) = Some (- 12)"
  "int_literal ''+7'' = Some 7"
  "int_literal ''007'' = Some 7"
  "int_literal ([CHR 0xA0] @ ''5'' @ [CHR 0x85]) = Some 5"
  by (simp_all add: int_literal_def py_strip_def py_isspace_def unsigned_literal_def
      digit_of_def)

lemma int_literal_refused:
  "int_literal [CHR 0x1C, CHR ''5''] = None"
  "int_literal [CHR ''5'', CHR 0x1F] = None"
  "int_literal ''1 2'' = None"
  "int_literal ''- 2'' = None"
  "int_literal ''1__2'' = None"
  "int_literal ''_12'' = None"
  "int_literal ''12_'' = None"
  "int_literal ''+'' = None"
  "int_literal '''' = None"
  "int_literal ''   '' = None"
  "int_literal ''0x10'' = None"
  "int_literal ''1.5'' = None"
  by (simp_all add: int_literal_def py_strip_def py_isspace_def unsigned_literal_def
      digit_of_def)

subsection \<open>The arguments of record\<close>

lemma record_command_launched:
  assumes "discover_game env (''Serpent'' @ n @ ''Game'') = Some cls"
    and "new_game cls = Inr g0" and "game_launch cls (Some True) g0 = Inr g1"
  shows "record_command env n a fc fs =
    (case py_int fc of
       Inl err \<Rightarrow> (Inl err, [Discover ''Game'' None, New (''Serpent'' @ n @ ''Game''), Launch (Some True) g0])
     | Inr i \<Rightarrow>
       (case py_int fs of
          Inl err \<Rightarrow> (Inl err, [Discover ''Game'' None, New (''Serpent'' @ n @ ''Game''), Launch (Some True) g0])
        | Inr j \<Rightarrow>
           (map_sum id (\<lambda>_. ())
              (game_play cls
                 [(''game_agent_class_name'', KArg (AStr a)),
                  (''frame_handler'', KArg (AStr ''RECORD'')),
                  (''frame_count'', KArg (AInt i)),
                  (''frame_spacing'', KArg (AInt j))] g1),
            [Discover ''Game'' None, New (''Serpent'' @ n @ ''Game''), Launch (Some True) g0,
             Play [(''game_agent_class_name'', KArg (AStr a)),
                  (''frame_handler'', KArg (AStr ''RECORD'')),
                  (''frame_count'', KArg (AInt i)),
                  (''frame_spacing'', KArg (AInt j))] g1])))"
  using assms
  by (simp add: record_command_def initialize_game_None initialize_game_Some run_defs split: sum.splits)

text \<open>
  C9: once the game is found, constructed and launched, \<^verbatim>\<open>record\<close> called with the
  game and agent names only makes the play call with \<^verbatim>\<open>frame_count=4\<close> and
  \<^verbatim>\<open>frame_spacing=4\<close>; called with two plain decimal strings too, it makes the play
  call with the integers they denote (10 and 2 for "10" and "2").
\<close>

theorem C9_record_frame_arguments:
  assumes "discover_game env (''Serpent'' @ n @ ''Game'') = Some cls"
    and "new_game cls = Inr g0" and "game_launch cls (Some True) g0 = Inr g1"
    and "is_decimal fc" and "is_decimal fs"
  shows "snd (record_argv env [n, a]) =
      [Discover ''Game'' None, New (''Serpent'' @ n @ ''Game''), Launch (Some True) g0,
       Play [(''game_agent_class_name'', KArg (AStr a)),
             (''frame_handler'', KArg (AStr ''RECORD'')),
             (''frame_count'', KArg (AInt 4)),
             (''frame_spacing'', KArg (AInt 4))] g1]
    \<and> snd (record_argv env [n, a, fc, fs]) =
      [Discover ''Game'' None, New (''Serpent'' @ n @ ''Game''), Launch (Some True) g0,
       Play [(''game_agent_class_name'', KArg (AStr a)),
             (''frame_handler'', KArg (AStr ''RECORD'')),
             (''frame_count'', KArg (AInt (int (decimal_value fc)))),
             (''frame_spacing'', KArg (AInt (int (decimal_value fs))))] g1]"
  using int_literal_decimal [OF assms(4)] int_literal_decimal [OF assms(5)]
  by (simp add: record_command_launched [OF assms(1,2,3)])

theorem C9_record_frame_arguments_witness:
  "snd (record_argv example_env [''Foo'', ''Bar'']) =
      [Discover ''Game'' None, New ''SerpentFooGame'', Launch (Some True) 0,
       Play [(''game_agent_class_name'', KArg (AStr ''Bar'')),
             (''frame_handler'', KArg (AStr ''RECORD'')),
             (''frame_count'', KArg (AInt 4)),
             (''frame_spacing'', KArg (AInt 4))] (Suc 0)]
    \<and> snd (record_argv example_env [''Foo'', ''Bar'', ''10'', ''2'']) =
      [Discover ''Game'' None, New ''SerpentFooGame'', Launch (Some True) 0,
       Play [(''game_agent_class_name'', KArg (AStr ''Bar'')),
             (''frame_handler'', KArg (AStr ''RECORD'')),
             (''frame_count'', KArg (AInt 10)),
             (''frame_spacing'', KArg (AInt 2))] (Suc 0)]"
proof -
  have d: "is_decimal ''10''" "is_decimal ''2''" by (simp_all add: is_decimal_def digit_of_def)
  have v: "decimal_value ''10'' = 10" "decimal_value ''2'' = 2" by (simp_all add: decimal_value_def)
  have f: "discover_game example_env (''Serpent'' @ ''Foo'' @ ''Game'') = Some example_class"
    by (simp add: example_env_def)
  have la: "game_launch example_class (Some True) 0 = Inr (Suc 0)"
    by (simp add: example_class_def)
  from C9_record_frame_arguments [OF f example_lookup(3) la d, of "''Bar''"]
  show ?thesis by (simp add: v)
qed

text \<open>
  C4, as stated, fails: \<^verbatim>\<open>record Foo Bar abc\<close> ends with the \<^verbatim>\<open>ValueError\<close> of the
  builtin \<^verbatim>\<open>int\<close>, which quotes the value and names no parameter, and it does so
  after the game was constructed and launched.
\<close>

theorem C4_raw_conversion_counterexample:
  "record_argv example_env [''Foo'', ''Bar'', ''abc''] =
     (Inl (InvalidLiteral ''abc''),
      [Discover ''Game'' None, New ''SerpentFooGame'', Launch (Some True) 0])"
proof -
  have f: "discover_game example_env (''Serpent'' @ ''Foo'' @ ''Game'') = Some example_class"
    by (simp add: example_env_def)
  have la: "game_launch example_class (Some True) 0 = Inr (Suc 0)"
    by (simp add: example_class_def)
  have l: "int_literal ''abc'' = None"
    by (simp add: int_literal_def py_strip_def py_isspace_def unsigned_literal_def digit_of_def)
  show ?thesis
    by (simp add: record_command_launched [OF f example_lookup(3) la] l)
qed

text \<open>
  C4 (amended): when \<^verbatim>\<open>frame_count\<close> is a string that is not an integer literal, or
  \<^verbatim>\<open>frame_count\<close> converts and \<^verbatim>\<open>frame_spacing\<close> is such a string, a record
  invocation whose game was found, constructed and launched fails with the error of the
  raw conversion: the \<^verbatim>\<open>ValueError\<close> of \<^verbatim>\<open>int\<close> carrying the offending string.
  No play call is made.
\<close>

theorem C4_invalid_literal:
  assumes "discover_game env (''Serpent'' @ n @ ''Game'') = Some cls"
    and "new_game cls = Inr g0" and "game_launch cls (Some True) g0 = Inr g1"
  shows "(int_literal fc = None \<longrightarrow>
           record_command env n a (AStr fc) fs =
             (Inl (InvalidLiteral fc),
              [Discover ''Game'' None, New (''Serpent'' @ n @ ''Game''), Launch (Some True) g0]))
    \<and> (py_int fc2 = Inr k \<and> int_literal fsp = None \<longrightarrow>
           record_command env n a fc2 (AStr fsp) =
             (Inl (InvalidLiteral fsp),
              [Discover ''Game'' None, New (''Serpent'' @ n @ ''Game''), Launch (Some True) g0]))"
  by (simp add: record_command_launched [OF assms])

theorem C4_invalid_literal_witness:
  "int_literal ''abc'' = None
   \<and> record_command example_env ''Foo'' ''Bar'' (AStr ''abc'') (AInt 4) =
       (Inl (InvalidLiteral ''abc''),
        [Discover ''Game'' None, New ''SerpentFooGame'', Launch (Some True) 0])
   \<and> py_int (AInt 4) = Inr 4 \<and> int_literal ''x'' = None
   \<and> record_command example_env ''Foo'' ''Bar'' (AInt 4) (AStr ''x'') =
       (Inl (InvalidLiteral ''x''),
        [Discover ''Game'' None, New ''SerpentFooGame'', Launch (Some True) 0])"
proof -
  have l: "int_literal ''abc'' = None" "int_literal ''x'' = None"
    by (simp_all add: int_literal_def py_strip_def py_isspace_def unsigned_literal_def digit_of_def)
  have f: "discover_game example_env (''Serpent'' @ ''Foo'' @ ''Game'') = Some example_class"
    by (simp add: example_env_def)
  have la: "game_launch example_class (Some True) 0 = Inr (Suc 0)"
    by (simp add: example_class_def)
  from C4_invalid_literal [OF f example_lookup(3) la, where fc = "''abc''" and a = "''Bar''"
      and fs = "AInt 4" and ?fc2.0 = "AInt 4" and k = 4 and fsp = "''x''"]
  show ?thesis using l by simp
qed

section \<open>The training commands\<close>

lemmas train_defs = train_def train_object_def train_context_def seq_def pure_def Let_def

text \<open>
  C8, as stated, fails for context training: \<^verbatim>\<open>train context\<close> hands over to
  \<^verbatim>\<open>ContextClassifier.executable_train\<close> and installs no signal handler.
\<close>

theorem C8_context_training_counterexample:
  "train example_training ''context'' [] = (Inr (), [ExecutableTrain 3 True False])"
  by (simp add: train_defs example_training_def py_in_def argv_is_true_def)

lemma train_object_signal:
  "snd (train_object tr name algorithm classes) = pre @ Train r # post \<Longrightarrow>
     SignalSIGINT r \<in> set pre"
  by (auto simp add: train_defs Cons_eq_append_conv split: sum.splits prod.splits if_splits)

lemma train_context_events:
  "SignalSIGINT r \<notin> set (snd (train_context tr e v a))"
  "Train r \<notin> set (snd (train_context tr e v a))"
  by (auto simp add: train_defs split: sum.splits prod.splits if_splits)

text \<open>
  C8 (amended): in object training, the call of the recogniser's \<^verbatim>\<open>train\<close> comes
  after \<^verbatim>\<open>signal.signal(SIGINT, on_interrupt)\<close> with the \<^verbatim>\<open>on_interrupt\<close> of
  that same recogniser. Context training installs no handler and calls no \<^verbatim>\<open>train\<close>
  of an instance: the core validates the flags and hands over to the class-level
  \<^verbatim>\<open>executable_train\<close>.
\<close>

theorem C8_interrupt_handler:
  "(snd (train_object tr name algorithm classes) = pre @ Train r # post \<longrightarrow>
      SignalSIGINT r \<in> set pre)
   \<and> (snd (train tr ''object'' (name # algorithm # classes)) = pre @ Train r # post \<longrightarrow>
      SignalSIGINT r \<in> set pre)
   \<and> SignalSIGINT r \<notin> set (snd (train_context tr e v a))
   \<and> Train r \<notin> set (snd (train_context tr e v a))"
  using train_object_signal [of tr name algorithm classes pre r post]
    train_context_events [of r tr e v a]
  by (simp add: train_def)

theorem C8_interrupt_handler_witness:
  "snd (train_object example_training ''m'' ''ssd'' [''cat'']) =
      [NewObjectRecognizer ''m'' ''LUMINOTH'' ''ssd'' [''cat''], SignalSIGINT ''m'']
        @ Train ''m'' # []
   \<and> SignalSIGINT ''m''
        \<in> set ([NewObjectRecognizer ''m'' ''LUMINOTH'' ''ssd'' [''cat''], SignalSIGINT ''m'']
                  :: string train_event list)"
proof -
  let ?pre = "[NewObjectRecognizer ''m'' ''LUMINOTH'' ''ssd'' [''cat''], SignalSIGINT ''m'']
                  :: string train_event list"
  have run: "snd (train_object example_training ''m'' ''ssd'' [''cat'']) = ?pre @ Train ''m'' # []"
    by (simp add: train_defs example_training_def)
  note T = C8_interrupt_handler [of example_training "''m''" "''ssd''" "[''cat'']" ?pre "''m''" "[]" "AInt 3" "ABool True" "ABool False"]
  from T have a: "snd (train_object example_training ''m'' ''ssd'' [''cat'']) = ?pre @ Train ''m'' # [] \<longrightarrow>
      SignalSIGINT ''m'' \<in> set ?pre" by (rule conjunct1)
  from a run have a': "SignalSIGINT ''m'' \<in> set ?pre" by (rule mp)
  show ?thesis by (rule conjI [OF run a'])
qed

section \<open>The scaffold generator\<close>

subsection \<open>Replacing text\<close>

lemma replace_Nil [simp]: "old \<noteq> [] \<Longrightarrow> replace old new [] = []"
  by simp

lemma prefix_drop: "prefix old s \<Longrightarrow> s = old @ drop (length old) s"
  by (auto simp: prefix_def)

lemma newlines_append: "newlines (a @ b) = newlines a + newlines b"
  by (simp add: newlines_def)

lemma newlines_0: "CHR 0x0A \<notin> set s \<Longrightarrow> newlines s = 0"
  by (induction s) (auto simp: newlines_def)

lemma newlines_replace:
  "old \<noteq> [] \<Longrightarrow> CHR 0x0A \<notin> set old \<Longrightarrow> CHR 0x0A \<notin> set new \<Longrightarrow>
   newlines (replace old new s) = newlines s"
proof (induction old new s rule: replace.induct)
  case (1 old new)
  then show ?case by simp
next
  case (2 old new c cs)
  show ?case
  proof (cases "prefix old (c # cs)")
    case True
    then have split: "c # cs = old @ drop (length old) (c # cs)" by (rule prefix_drop)
    have "newlines (c # cs) = newlines old + newlines (drop (length old) (c # cs))"
      by (subst split) (simp only: newlines_append)
    with 2 True show ?thesis by (simp add: newlines_append newlines_0)
  next
    case False
    with 2 show ?thesis by (simp add: newlines_def)
  qed
qed

lemma prefix_line:
  assumes "CHR 0x0A \<notin> set old"
  shows "prefix old (l @ CHR 0x0A # rest) \<longleftrightarrow> prefix old l"
proof
  assume "prefix old (l @ CHR 0x0A # rest)"
  then have "prefix old l \<or> (\<exists>us. old = l @ us \<and> prefix us (CHR 0x0A # rest))"
    by (simp only: prefix_append)
  then show "prefix old l"
  proof
    assume "prefix old l" then show ?thesis .
  next
    assume "\<exists>us. old = l @ us \<and> prefix us (CHR 0x0A # rest)"
    then obtain us where us: "old = l @ us" "prefix us (CHR 0x0A # rest)" by blast
    show ?thesis
    proof (cases us)
      case Nil
      with us show ?thesis by simp
    next
      case (Cons u us')
      with us have "u = CHR 0x0A" by simp
      with us Cons assms show ?thesis by simp
    qed
  qed
next
  assume "prefix old l" then show "prefix old (l @ CHR 0x0A # rest)" by (rule prefix_prefix)
qed

lemma replace_line:
  "old \<noteq> [] \<Longrightarrow> CHR 0x0A \<notin> set old \<Longrightarrow>
   replace old new (l @ CHR 0x0A # rest) = replace old new l @ CHR 0x0A # replace old new rest"
proof (induction old new l rule: replace.induct)
  case (1 old new)
  then have "\<not> prefix old (CHR 0x0A # rest)" by (cases old) auto
  with 1 show ?case by simp
next
  case (2 old new c cs)
  have p: "prefix old (c # cs @ CHR 0x0A # rest) \<longleftrightarrow> prefix old (c # cs)"
    using prefix_line [OF "2.prems"(2), of "c # cs" rest] by simp
  show ?case
  proof (cases "prefix old (c # cs)")
    case True
    then have len: "length old \<le> length (c # cs)" by (rule prefix_length_le)
    have d: "drop (length old) (c # cs @ CHR 0x0A # rest) = drop (length old) (c # cs) @ CHR 0x0A # rest"
      using len by (cases old) simp_all
    from 2 True p d show ?thesis by (simp del: drop_Suc_Cons)
  next
    case False
    with 2 p show ?thesis by simp
  qed
qed

lemma replace_unlines:
  "old \<noteq> [] \<Longrightarrow> CHR 0x0A \<notin> set old \<Longrightarrow>
   replace old new (unlines ls) = unlines (map (replace old new) ls)"
  by (induction ls) (simp_all add: unlines_def replace_line)

lemma replace_indent:
  "old \<noteq> [] \<Longrightarrow> hd old \<noteq> CHR '' '' \<Longrightarrow> set ind \<subseteq> {CHR '' ''} \<Longrightarrow>
   replace old new (ind @ s) = ind @ replace old new s"
proof (induction ind)
  case Nil
  then show ?case by simp
next
  case (Cons a ind)
  then have "\<not> prefix old (a # ind @ s)" by (cases old) auto
  with Cons show ?case by simp
qed

subsection \<open>The steam branch\<close>

lemmas line_defs = web_browser_import_def executable_path_line_def url_line_def
  browser_line_def app_id_line_def app_args_line_def

lemma steam_newlines:
  "CHR 0x0A \<notin> set game_name \<Longrightarrow>
   newlines (game_file_contents game_name ''steam'' contents) = newlines contents"
  by (simp add: game_file_contents_def Let_def newlines_replace line_defs)

lemma steam_unlines:
  "game_file_contents game_name ''steam'' (unlines ls) =
   unlines (map (game_file_contents game_name ''steam'') ls)"
  by (simp add: game_file_contents_def [abs_def] Let_def replace_unlines line_defs comp_def)

lemma steam_indent:
  "set ind \<subseteq> {CHR '' ''} \<Longrightarrow>
   game_file_contents game_name ''steam'' (ind @ s) = ind @ game_file_contents game_name ''steam'' s"
  by (simp add: game_file_contents_def Let_def replace_indent line_defs)

lemma steam_web_browser_import:
  "game_file_contents game_name ''steam'' web_browser_import = []"
  by (simp add: game_file_contents_def Let_def line_defs)

lemma steam_executable_path_line:
  "game_file_contents game_name ''steam'' executable_path_line = []"
  by (simp add: game_file_contents_def Let_def line_defs)

lemma steam_url_line:
  "game_file_contents game_name ''steam'' url_line = []"
  by (simp add: game_file_contents_def Let_def line_defs)

lemma steam_browser_line:
  "game_file_contents game_name ''steam'' browser_line = []"
  by (simp add: game_file_contents_def Let_def line_defs)

lemma steam_platform_line:
  \<open>game_file_contents game_name ''steam'' ''kwargs["platform"] = "PLATFORM"''
     = ''kwargs["platform"] = "steam"''\<close>
  by (simp add: game_file_contents_def Let_def line_defs)

lemma steam_placeholder:
  "game_file_contents game_name ''steam'' ''PLATFORM'' = ''steam''"
  by (simp add: game_file_contents_def Let_def line_defs)

subsection \<open>Paths and file operations\<close>

lemma replace_single:
  "replace [c] new s = concat (map (\<lambda>x. if x = c then new else [x]) s)"
  by (induction s) auto

lemma os_path_append: "os_path env (a @ b) = os_path env a @ os_path env b"
  by (simp add: os_path_def replace_single)

lemma os_path_length: "length (os_path env p) = length p"
  by (induction p) (auto simp add: os_path_def replace_single)

lemma os_path_idem: "os_path env (os_path env p) = os_path env p"
  by (induction p) (auto simp add: os_path_def replace_single)

lemma os_path_posix: "os_sep env = CHR ''/'' \<Longrightarrow> os_path env p = p"
  by (induction p) (auto simp add: os_path_def replace_single)

lemma plugin_destination_path_eq:
  "plugin_destination_path env game_name =
     os_path env (plugins_path env) @ [os_sep env] @ ''Serpent'' @ os_path env game_name
       @ ''GamePlugin''"
proof -
  have 1: "os_path env ''/Serpent'' = [os_sep env] @ ''Serpent''"
    and 2: "os_path env ''GamePlugin'' = ''GamePlugin''"
    by (simp_all add: os_path_def)
  show ?thesis
    by (simp only: plugin_destination_path_def os_path_append 1 2 append_assoc)
qed

lemma keeps_dir_io_seq:
  "keeps_dir d m \<Longrightarrow> (\<And>x. keeps_dir d (f x)) \<Longrightarrow> keeps_dir d (io_seq m f)"
  unfolding keeps_dir_def io_seq_def
  by (auto split: prod.splits sum.splits)

lemma keeps_dir_read: "keeps_dir d (read_file p)"
  by (auto simp add: keeps_dir_def read_file_def split: option.splits node.splits)

lemma keeps_dir_write: "keeps_dir d (write_file p c)"
  by (auto simp add: keeps_dir_def write_file_def split: option.splits node.splits)

lemma rename_other:
  "length d < length a \<Longrightarrow> length d < length b \<Longrightarrow> rename env a b fs d = fs d"
  by (auto simp add: rename_def dest: prefix_length_le)

lemma keeps_dir_move:
  "length d < length a \<Longrightarrow> length d < length b \<Longrightarrow> keeps_dir d (move env a b)"
  by (auto simp add: keeps_dir_def move_def Let_def rename_other split: option.splits if_splits)

lemma io_seq_Inr:
  "io_seq m f fs = (Inr y, fs') \<Longrightarrow> \<exists>x fs1. m fs = (Inr x, fs1) \<and> f x fs1 = (Inr y, fs')"
  by (auto simp add: io_seq_def split: prod.splits sum.splits)

lemma copytree_Inr:
  "copytree env dst fs = (Inr x, fs1) \<Longrightarrow>
     game_plugin_template env \<noteq> None \<and> fs dst = None \<and> fs1 dst = Some Dir"
  by (auto simp add: copytree_def split: option.splits if_splits)

lemma copytree_exists:
  "game_plugin_template env \<noteq> None \<Longrightarrow> fs dst \<noteq> None \<Longrightarrow>
     copytree env dst fs = (Inl (FileExistsError dst), fs)"
  by (auto simp add: copytree_def split: option.splits)

lemma prepare_game_plugin_exists:
  "game_plugin_template env \<noteq> None \<Longrightarrow> fs (plugin_destination_path env game_name) \<noteq> None \<Longrightarrow>
   prepare_game_plugin env game_name game_platform fs =
     (Inl (FileExistsError (plugin_destination_path env game_name)), fs)"
  by (simp add: prepare_game_plugin_def Let_def io_seq_def copytree_exists)

lemma prepare_game_plugin_Inr:
  assumes "prepare_game_plugin env game_name game_platform fs = (Inr (), fs')"
  shows "game_plugin_template env \<noteq> None
    \<and> fs (plugin_destination_path env game_name) = None
    \<and> fs' (plugin_destination_path env game_name) = Some Dir"
proof -
  let ?dst = "plugin_destination_path env game_name"
  define k where "k =
    io_seq (read_file (os_path env (?dst @ ''/plugin.py''))) (\<lambda>contents.
    io_seq (write_file (os_path env (?dst @ ''/plugin.py''))
              (plugin_file_contents game_name contents)) (\<lambda>_.
    io_seq (move env (os_path env (?dst @ ''/files/serpent_game.py''))
              (os_path env (?dst @ ''/files/serpent_'' @ game_name @ ''_game.py''))) (\<lambda>_.
    io_seq (read_file (os_path env (?dst @ ''/files/serpent_'' @ game_name @ ''_game.py'')))
      (\<lambda>contents.
    io_seq (write_file (os_path env (?dst @ ''/files/serpent_'' @ game_name @ ''_game.py''))
              (game_file_contents game_name game_platform contents)) (\<lambda>_.
    io_seq (read_file (os_path env (?dst @ ''/files/api/api.py''))) (\<lambda>contents.
    write_file (os_path env (?dst @ ''/files/api/api.py''))
      (replace ''MyGameAPI'' (game_name @ ''API'') contents)))))))"
  have unfold: "prepare_game_plugin env game_name game_platform = io_seq (copytree env ?dst) (\<lambda>_. k)"
    by (simp add: prepare_game_plugin_def Let_def k_def)
  have keeps: "keeps_dir ?dst k"
    unfolding k_def
    by (intro keeps_dir_io_seq keeps_dir_read keeps_dir_write keeps_dir_move)
       (simp_all add: os_path_length)
  from assms unfold obtain x fs1 where c: "copytree env ?dst fs = (Inr x, fs1)"
    and r: "k fs1 = (Inr (), fs')"
    using io_seq_Inr [of "copytree env ?dst" "\<lambda>_. k" fs "()" fs'] by auto
  from copytree_Inr [OF c] have t: "game_plugin_template env \<noteq> None" and n: "fs ?dst = None"
    and d: "fs1 ?dst = Some Dir" by simp_all
  from keeps r d have "fs' ?dst = Some Dir" unfolding keeps_dir_def by blast
  with t n show ?thesis by simp
qed

lemma os_path_Nil: "os_path env [] = []"
  by (simp add: os_path_def)

lemma os_path_Cons:
  "os_path env (c # p) = (if c = CHR ''/'' then os_sep env else c) # os_path env p"
  by (simp add: os_path_def replace_single)

lemmas os_path_simps = os_path_Nil os_path_Cons os_path_append

lemma os_path_destination:
  "os_path env (plugin_destination_path env game_name) = plugin_destination_path env game_name"
  by (simp add: plugin_destination_path_def os_path_idem)

lemma game_py_path:
  "os_path env
     (plugin_destination_path env game_name @ ''/files/serpent_'' @ game_name @ ''_game.py'') =
     plugin_destination_path env game_name @ os_sep env # ''files'' @ os_sep env # ''serpent_''
       @ os_path env game_name @ ''_game.py''"
  by (simp add: os_path_simps os_path_destination)

lemma read_file_Inr: "read_file p fs = (Inr c, fs') \<Longrightarrow> fs' = fs \<and> fs p = Some (File c)"
  by (auto simp add: read_file_def split: option.splits node.splits)

lemma write_file_Inr: "write_file p c fs = (Inr x, fs') \<Longrightarrow> fs' = fs(p \<mapsto> File c)"
  by (auto simp add: write_file_def split: option.splits node.splits)

lemma copytree_file:
  assumes "copytree env dst fs = (Inr x, fs1)" and "game_plugin_template env = Some tree"
    and "tree rel = Some n"
  shows "fs1 (dst @ os_sep env # rel) = Some n"
  using assms by (auto simp add: copytree_def split: if_splits)

lemma move_file:
  assumes "move env a b fs = (Inr x, fs')" and "fs a = Some (File c)"
    and "\<exists>n. fs' b = Some (File n)"
  shows "fs' b = Some (File c)"
proof (cases "fs b = Some Dir")
  case True
  with assms(2) have ab: "a \<noteq> b" by auto
  let ?real = "b @ [os_sep env] @ basename env a"
  from assms(1,2) True ab have fs': "fs' = rename env a ?real fs"
    by (auto simp add: move_def Let_def split: if_splits)
  have "\<not> prefix (?real @ [os_sep env]) b" "b \<noteq> ?real"
    by (auto dest: prefix_length_le)
  with fs' True have "fs' b = None \<or> fs' b = Some Dir" by (simp add: rename_def)
  with assms(3) show ?thesis by auto
next
  case False
  with assms(1,2) have "fs' = rename env a b fs"
    by (auto simp add: move_def Let_def split: if_splits)
  with assms(2) show ?thesis by (simp add: rename_def)
qed

lemma generated_game_file:
  assumes ok: "prepare_game_plugin env game_name game_platform fs = (Inr (), fs')"
    and tree: "game_plugin_template env = Some tree"
    and tfile: "tree (''files'' @ os_sep env # ''serpent_game.py'') = Some (File c)"
  shows "fs' (plugin_destination_path env game_name @ os_sep env # ''files'' @ os_sep env
               # ''serpent_'' @ os_path env game_name @ ''_game.py'')
          = Some (File (game_file_contents game_name game_platform c))"
proof -
  let ?dst = "plugin_destination_path env game_name"
  let ?s = "os_sep env"
  let ?plugin = "?dst @ ?s # ''plugin.py''"
  let ?a = "?dst @ ?s # ''files'' @ ?s # ''serpent_game.py''"
  let ?game = "?dst @ ?s # ''files'' @ ?s # ''serpent_'' @ os_path env game_name @ ''_game.py''"
  let ?api = "?dst @ ?s # ''files'' @ ?s # ''api'' @ ?s # ''api.py''"
  from ok have run: "io_seq (copytree env ?dst) (\<lambda>_.
         io_seq (read_file ?plugin) (\<lambda>contents.
         io_seq (write_file ?plugin (plugin_file_contents game_name contents)) (\<lambda>_.
         io_seq (move env ?a ?game) (\<lambda>_.
         io_seq (read_file ?game) (\<lambda>contents.
         io_seq (write_file ?game (game_file_contents game_name game_platform contents)) (\<lambda>_.
         io_seq (read_file ?api) (\<lambda>contents.
         write_file ?api (replace ''MyGameAPI'' (game_name @ ''API'') contents)))))))) fs
       = (Inr (), fs')"
    by (simp add: prepare_game_plugin_def Let_def os_path_simps os_path_destination)
  from io_seq_Inr [OF run] obtain x1 fs1 where
    s1: "copytree env ?dst fs = (Inr x1, fs1)" and
    r1: "io_seq (read_file ?plugin) (\<lambda>contents.
         io_seq (write_file ?plugin (plugin_file_contents game_name contents)) (\<lambda>_.
         io_seq (move env ?a ?game) (\<lambda>_.
         io_seq (read_file ?game) (\<lambda>contents.
         io_seq (write_file ?game (game_file_contents game_name game_platform contents)) (\<lambda>_.
         io_seq (read_file ?api) (\<lambda>contents.
         write_file ?api (replace ''MyGameAPI'' (game_name @ ''API'') contents))))))) fs1
       = (Inr (), fs')" by blast
  from io_seq_Inr [OF r1] obtain c1 fs1' where
    s2: "read_file ?plugin fs1 = (Inr c1, fs1')" and
    r2: "io_seq (write_file ?plugin (plugin_file_contents game_name c1)) (\<lambda>_.
         io_seq (move env ?a ?game) (\<lambda>_.
         io_seq (read_file ?game) (\<lambda>contents.
         io_seq (write_file ?game (game_file_contents game_name game_platform contents)) (\<lambda>_.
         io_seq (read_file ?api) (\<lambda>contents.
         write_file ?api (replace ''MyGameAPI'' (game_name @ ''API'') contents)))))) fs1'
       = (Inr (), fs')" by blast
  from io_seq_Inr [OF r2] obtain x2 fs2 where
    s3: "write_file ?plugin (plugin_file_contents game_name c1) fs1' = (Inr x2, fs2)" and
    r3: "io_seq (move env ?a ?game) (\<lambda>_.
         io_seq (read_file ?game) (\<lambda>contents.
         io_seq (write_file ?game (game_file_contents game_name game_platform contents)) (\<lambda>_.
         io_seq (read_file ?api) (\<lambda>contents.
         write_file ?api (replace ''MyGameAPI'' (game_name @ ''API'') contents))))) fs2
       = (Inr (), fs')" by blast
  from io_seq_Inr [OF r3] obtain x3 fs3 where
    s4: "move env ?a ?game fs2 = (Inr x3, fs3)" and
    r4: "io_seq (read_file ?game) (\<lambda>contents.
         io_seq (write_file ?game (game_file_contents game_name game_platform contents)) (\<lambda>_.
         io_seq (read_file ?api) (\<lambda>contents.
         write_file ?api (replace ''MyGameAPI'' (game_name @ ''API'') contents)))) fs3
       = (Inr (), fs')" by blast
  from io_seq_Inr [OF r4] obtain c2 fs3' where
    s5: "read_file ?game fs3 = (Inr c2, fs3')" and
    r5: "io_seq (write_file ?game (game_file_contents game_name game_platform c2)) (\<lambda>_.
         io_seq (read_file ?api) (\<lambda>contents.
         write_file ?api (replace ''MyGameAPI'' (game_name @ ''API'') contents))) fs3'
       = (Inr (), fs')" by blast
  from io_seq_Inr [OF r5] obtain x4 fs4 where
    s6: "write_file ?game (game_file_contents game_name game_platform c2) fs3' = (Inr x4, fs4)" and
    r6: "io_seq (read_file ?api) (\<lambda>contents.
         write_file ?api (replace ''MyGameAPI'' (game_name @ ''API'') contents)) fs4
       = (Inr (), fs')" by blast
  from io_seq_Inr [OF r6] obtain c3 fs4' where
    s7: "read_file ?api fs4 = (Inr c3, fs4')" and
    s8: "write_file ?api (replace ''MyGameAPI'' (game_name @ ''API'') c3) fs4' = (Inr (), fs')"
    by blast
  have "fs1 (?dst @ ?s # (''files'' @ ?s # ''serpent_game.py'')) = Some (File c)"
    by (rule copytree_file [OF s1 tree tfile])
  then have a1: "fs1 ?a = Some (File c)" by simp
  from read_file_Inr [OF s2] have e1: "fs1' = fs1" by simp
  from write_file_Inr [OF s3] e1 have e2: "fs2 = fs1(?plugin \<mapsto> File (plugin_file_contents game_name c1))"
    by simp
  have "?plugin \<noteq> ?a" by simp
  with e2 a1 have a2: "fs2 ?a = Some (File c)" by simp
  from read_file_Inr [OF s5] have e3: "fs3' = fs3" and g3: "fs3 ?game = Some (File c2)" by simp_all
  from move_file [OF s4 a2] g3 have "fs3 ?game = Some (File c)" by blast
  with g3 have c2: "c2 = c" by simp
  from write_file_Inr [OF s6] e3 c2
  have e4: "fs4 = fs3(?game \<mapsto> File (game_file_contents game_name game_platform c))" by simp
  from read_file_Inr [OF s7] have e5: "fs4' = fs4" by simp
  from write_file_Inr [OF s8] e5
  have e6: "fs' = fs4(?api \<mapsto> File (replace ''MyGameAPI'' (game_name @ ''API'') c3))" by simp
  have "?api \<noteq> ?game" by simp
  with e6 e4 show ?thesis by simp
qed

subsection \<open>A worked generation\<close>

lemmas fs_defs = prepare_game_plugin_def io_seq_def copytree_def read_file_def write_file_def
  move_def rename_def basename_def os_path_def plugin_destination_path_def Let_def

lemma example_generation:
  "fst (prepare_game_plugin example_scaffold_env ''Foo'' ''steam'' Map.empty) = Inr ()"
  by (simp add: fs_defs example_scaffold_env_def example_template_def example_game_file_def
      game_file_contents_def plugin_file_contents_def line_defs unlines_def)

lemma example_run:
  "prepare_game_plugin example_scaffold_env ''Foo'' ''steam'' Map.empty =
     (Inr (), snd (prepare_game_plugin example_scaffold_env ''Foo'' ''steam'' Map.empty))"
  using example_generation by (simp add: prod_eq_iff)

lemma example_paths:
  "plugin_destination_path example_scaffold_env ''Foo'' = ''plugins/SerpentFooGamePlugin''"
  "os_sep example_scaffold_env = CHR ''/''"
  "os_path example_scaffold_env ''Foo'' = ''Foo''"
  "game_plugin_template example_scaffold_env = Some example_template"
  "example_template ''files/serpent_game.py'' = Some (File example_game_file)"
  by (simp_all add: plugin_destination_path_def os_path_def example_scaffold_env_def
      example_template_def)


subsection \<open>Generating twice\<close>

text \<open>
  C5: the destination directory of a game plugin is a function of the plugin directory
  and the game name alone: \<^verbatim>\<open>Serpent\<close> + game name + \<^verbatim>\<open>GamePlugin\<close> under the
  plugin directory, with every slash turned into \<^verbatim>\<open>os.sep\<close> (nothing changes where
  the separator is the slash). When a generation has succeeded, the destination did not
  exist before and is a directory after, and generating again with the same game name,
  for whatever platform, raises \<^verbatim>\<open>FileExistsError\<close> for the destination (the
  ScaffoldConflict of the spec) and leaves the file system exactly as the first
  generation left it.
\<close>

theorem C5_second_generation_conflicts:
  assumes "prepare_game_plugin env game_name game_platform fs = (Inr (), fs')"
  shows "plugin_destination_path env game_name =
        os_path env (plugins_path env) @ [os_sep env] @ ''Serpent'' @ os_path env game_name
          @ ''GamePlugin''
     \<and> (os_sep env = CHR ''/'' \<longrightarrow>
          plugin_destination_path env game_name =
            plugins_path env @ ''/Serpent'' @ game_name @ ''GamePlugin'')
     \<and> fs (plugin_destination_path env game_name) = None
     \<and> fs' (plugin_destination_path env game_name) = Some Dir
     \<and> prepare_game_plugin env game_name platform2 fs' =
         (Inl (FileExistsError (plugin_destination_path env game_name)), fs')"
proof -
  note p = prepare_game_plugin_Inr [OF assms]
  from p have e: "fs' (plugin_destination_path env game_name) \<noteq> None" by simp
  from p have t: "game_plugin_template env \<noteq> None" by simp
  have posix: "os_sep env = CHR ''/'' \<longrightarrow>
          plugin_destination_path env game_name =
            plugins_path env @ ''/Serpent'' @ game_name @ ''GamePlugin''"
    by (simp add: plugin_destination_path_def os_path_posix)
  show ?thesis
    using p posix plugin_destination_path_eq [of env game_name]
      prepare_game_plugin_exists [of env fs' game_name platform2, OF t e]
    by simp
qed

theorem C5_second_generation_conflicts_witness:
  "prepare_game_plugin example_scaffold_env ''Foo'' ''steam'' Map.empty =
     (Inr (), snd (prepare_game_plugin example_scaffold_env ''Foo'' ''steam'' Map.empty))
   \<and> plugin_destination_path example_scaffold_env ''Foo'' = ''plugins/SerpentFooGamePlugin''
   \<and> prepare_game_plugin example_scaffold_env ''Foo'' ''executable''
        (snd (prepare_game_plugin example_scaffold_env ''Foo'' ''steam'' Map.empty)) =
      (Inl (FileExistsError ''plugins/SerpentFooGamePlugin''),
       snd (prepare_game_plugin example_scaffold_env ''Foo'' ''steam'' Map.empty))"
proof -
  note T = C5_second_generation_conflicts [OF example_run, of "''executable''"]
  from T have "prepare_game_plugin example_scaffold_env ''Foo'' ''executable''
        (snd (prepare_game_plugin example_scaffold_env ''Foo'' ''steam'' Map.empty)) =
      (Inl (FileExistsError (plugin_destination_path example_scaffold_env ''Foo'')),
       snd (prepare_game_plugin example_scaffold_env ''Foo'' ''steam'' Map.empty))"
    by (elim conjE)
  then have c: "prepare_game_plugin example_scaffold_env ''Foo'' ''executable''
        (snd (prepare_game_plugin example_scaffold_env ''Foo'' ''steam'' Map.empty)) =
      (Inl (FileExistsError ''plugins/SerpentFooGamePlugin''),
       snd (prepare_game_plugin example_scaffold_env ''Foo'' ''steam'' Map.empty))"
    by (simp only: example_paths(1))
  show ?thesis by (rule conjI [OF example_run conjI [OF example_paths(1) c]])
qed


subsection \<open>The lines of the other platforms\<close>

lemma example_generation_file:
  "snd (prepare_game_plugin example_scaffold_env ''Foo'' ''steam'' Map.empty)
     ''plugins/SerpentFooGamePlugin/files/serpent_Foo_game.py'' =
   Some (File (unlines [''class SerpentFooGame:'', ''    '', ''    pass'']))"
  by (simp add: fs_defs example_scaffold_env_def example_template_def example_game_file_def
      game_file_contents_def plugin_file_contents_def line_defs unlines_def)

text \<open>
  C3, as stated, fails: a line of the other platforms is not deleted. The replacement
  takes the literal text out of the line and leaves the rest of it, so the generated file
  keeps the line, blank, with its indentation and its line break. From a template game
  file of three lines, the second being the \<^verbatim>\<open>url\<close> line of the web-browser
  platform, the steam plugin gets a game file of three lines, the second being four
  spaces.
\<close>

theorem C3_blank_line_counterexample:
  "example_game_file = unlines [''class SerpentGame:'', ''    '' @ url_line, ''    pass'']
   \<and> game_plugin_template example_scaffold_env = Some example_template
   \<and> example_template ''files/serpent_game.py'' = Some (File example_game_file)
   \<and> fst (prepare_game_plugin example_scaffold_env ''Foo'' ''steam'' Map.empty) = Inr ()
   \<and> snd (prepare_game_plugin example_scaffold_env ''Foo'' ''steam'' Map.empty)
        ''plugins/SerpentFooGamePlugin/files/serpent_Foo_game.py'' =
      Some (File (unlines [''class SerpentFooGame:'', ''    '', ''    pass'']))
   \<and> unlines [''class SerpentFooGame:'', ''    '', ''    pass'']
        \<noteq> unlines [''class SerpentFooGame:'', ''    pass'']"
  using example_generation example_generation_file
  by (simp add: example_game_file_def example_scaffold_env_def example_template_def unlines_def)

text \<open>
  C3 (amended): for a game plugin generated with platform steam, the generated game file
  is the template's game file transformed line by line. A line made of indentation and
  one of the four literal texts of the executable and web-browser platforms (the
  \<^verbatim>\<open>WebBrowser\<close> import, the \<^verbatim>\<open>executable_path\<close>, \<^verbatim>\<open>url\<close> and
  \<^verbatim>\<open>browser\<close> assignments) is reduced to its indentation: the literal is gone, the
  line stays, blank. The \<^verbatim>\<open>PLATFORM\<close> placeholder of a line is rewritten to
  \<^verbatim>\<open>steam\<close>. The number of line breaks of the file does not change (for a game
  name without a line break).
\<close>

theorem C3_steam_lines:
  \<open>(game_plugin_template env = Some tree
      \<and> tree (''files'' @ os_sep env # ''serpent_game.py'') = Some (File (unlines ls))
      \<and> prepare_game_plugin env game_name ''steam'' fs = (Inr (), fs') \<longrightarrow>
    fs' (plugin_destination_path env game_name @ os_sep env # ''files'' @ os_sep env
           # ''serpent_'' @ os_path env game_name @ ''_game.py'')
      = Some (File (unlines (map (game_file_contents game_name ''steam'') ls))))
   \<and> (set ind \<subseteq> {CHR '' ''} \<longrightarrow>
        game_file_contents game_name ''steam'' (ind @ web_browser_import) = ind
      \<and> game_file_contents game_name ''steam'' (ind @ executable_path_line) = ind
      \<and> game_file_contents game_name ''steam'' (ind @ url_line) = ind
      \<and> game_file_contents game_name ''steam'' (ind @ browser_line) = ind
      \<and> game_file_contents game_name ''steam'' (ind @ ''PLATFORM'') = ind @ ''steam''
      \<and> game_file_contents game_name ''steam'' (ind @ ''kwargs["platform"] = "PLATFORM"'')
          = ind @ ''kwargs["platform"] = "steam"'')
   \<and> (CHR 0x0A \<notin> set game_name \<longrightarrow>
        newlines (game_file_contents game_name ''steam'' contents) = newlines contents)\<close>
proof (intro conjI impI)
  assume h: "game_plugin_template env = Some tree
      \<and> tree (''files'' @ os_sep env # ''serpent_game.py'') = Some (File (unlines ls))
      \<and> prepare_game_plugin env game_name ''steam'' fs = (Inr (), fs')"
  then have "fs' (plugin_destination_path env game_name @ os_sep env # ''files'' @ os_sep env
           # ''serpent_'' @ os_path env game_name @ ''_game.py'')
      = Some (File (game_file_contents game_name ''steam'' (unlines ls)))"
    using generated_game_file [of env game_name "''steam''" fs fs' tree "unlines ls"] by blast
  then show "fs' (plugin_destination_path env game_name @ os_sep env # ''files'' @ os_sep env
           # ''serpent_'' @ os_path env game_name @ ''_game.py'')
      = Some (File (unlines (map (game_file_contents game_name ''steam'') ls)))"
    by (simp only: steam_unlines)
next
  assume i: "set ind \<subseteq> {CHR '' ''}"
  show "game_file_contents game_name ''steam'' (ind @ web_browser_import) = ind"
    by (simp add: steam_indent [OF i] steam_web_browser_import)
  show "game_file_contents game_name ''steam'' (ind @ executable_path_line) = ind"
    by (simp add: steam_indent [OF i] steam_executable_path_line)
  show "game_file_contents game_name ''steam'' (ind @ url_line) = ind"
    by (simp add: steam_indent [OF i] steam_url_line)
  show "game_file_contents game_name ''steam'' (ind @ browser_line) = ind"
    by (simp add: steam_indent [OF i] steam_browser_line)
  show "game_file_contents game_name ''steam'' (ind @ ''PLATFORM'') = ind @ ''steam''"
    by (simp only: steam_indent [OF i] steam_placeholder)
  show \<open>game_file_contents game_name ''steam'' (ind @ ''kwargs["platform"] = "PLATFORM"'')
          = ind @ ''kwargs["platform"] = "steam"''\<close>
    by (simp only: steam_indent [OF i] steam_platform_line)
next
  assume "CHR 0x0A \<notin> set game_name"
  then show "newlines (game_file_contents game_name ''steam'' contents) = newlines contents"
    by (rule steam_newlines)
qed

theorem C3_steam_lines_witness:
  "set ''    '' \<subseteq> {CHR '' ''} \<and> CHR 0x0A \<notin> set ''Foo''
   \<and> snd (prepare_game_plugin example_scaffold_env ''Foo'' ''steam'' Map.empty)
        (''plugins/SerpentFooGamePlugin'' @ CHR ''/'' # ''files'' @ CHR ''/'' # ''serpent_''
           @ ''Foo'' @ ''_game.py'') =
      Some (File (unlines (map (game_file_contents ''Foo'' ''steam'')
                    [''class SerpentGame:'', ''    '' @ url_line, ''    pass''])))
   \<and> game_file_contents ''Foo'' ''steam'' (''    '' @ url_line) = ''    ''
   \<and> newlines (game_file_contents ''Foo'' ''steam'' example_game_file)
        = newlines example_game_file"
proof -
  let ?ls = "[''class SerpentGame:'', ''    '' @ url_line, ''    pass'']"
  let ?fs' = "snd (prepare_game_plugin example_scaffold_env ''Foo'' ''steam'' Map.empty)"
  have i: "set ''    '' \<subseteq> {CHR '' ''}" by simp
  have n: "CHR 0x0A \<notin> set ''Foo''" by simp
  have t: "example_template (''files'' @ os_sep example_scaffold_env # ''serpent_game.py'')
      = Some (File (unlines ?ls))"
    using example_paths(5) by (simp add: example_paths(2) example_game_file_def)
  note T = C3_steam_lines [of example_scaffold_env example_template ?ls "''Foo''" Map.empty ?fs'
      "''    ''" example_game_file]
  from T have "?fs' (plugin_destination_path example_scaffold_env ''Foo''
           @ os_sep example_scaffold_env # ''files'' @ os_sep example_scaffold_env
           # ''serpent_'' @ os_path example_scaffold_env ''Foo'' @ ''_game.py'')
      = Some (File (unlines (map (game_file_contents ''Foo'' ''steam'') ?ls)))"
    using example_paths(4) t example_run by blast
  then have a: "?fs' (''plugins/SerpentFooGamePlugin'' @ CHR ''/'' # ''files'' @ CHR ''/''
           # ''serpent_'' @ ''Foo'' @ ''_game.py'')
      = Some (File (unlines (map (game_file_contents ''Foo'' ''steam'') ?ls)))"
    by (simp only: example_paths(1,2,3))
  from T i have b: "game_file_contents ''Foo'' ''steam'' (''    '' @ url_line) = ''    ''"
    by blast
  from T n have c: "newlines (game_file_contents ''Foo'' ''steam'' example_game_file)
        = newlines example_game_file"
    by blast
  show ?thesis by (rule conjI [OF i conjI [OF n conjI [OF a conjI [OF b c]]]])
qed

end
